theory Spec2Isabelle
  imports Main "HOL-Library.Word" "HOL-Library.AList"
begin

unbundle bit_operations_syntax

section \<open>Basic types\<close>

text \<open>
  Go's \<open>byte\<close>/\<open>uint8\<close> and \<open>uint32\<close> are machine words.  A Go \<open>string\<close> holding
  wire data (password, command) is the byte sequence it was converted from, so it is a
  \<open>byte list\<close>; \<open>string(buf[0:n])\<close> is the identity on the contents.  Peer addresses
  (\<open>net.Addr\<close>) occur only through \<open>addr.String()\<close> and are HOL strings.
\<close>

type_synonym byte = "8 word"
type_synonym uint32 = "32 word"

section \<open>checksum.go\<close>

text \<open>
  \<open>NewChecksum\<close> calls \<open>crc32.ChecksumIEEE\<close> of Go's standard library.  The library
  function is embedded through its portable implementation: \<open>simplePopulateTable\<close>
  builds the 256-entry table of the reflected polynomial \<open>0xedb88320\<close> (eight
  shift-and-xor rounds per entry) and \<open>simpleUpdate\<close> folds the table over the data
  between two complements.  The table is a function of the index instead of an array.
\<close>

definition IEEE :: uint32 where
  "IEEE = 0xedb88320"

text \<open>One round of the inner loop of \<open>simplePopulateTable\<close>.\<close>

definition shift1 :: "uint32 \<Rightarrow> uint32 \<Rightarrow> uint32" where
  "shift1 poly crc =
     (if crc AND 1 = 1 then (drop_bit 1 crc) XOR poly else drop_bit 1 crc)"

fun populate_entry :: "uint32 \<Rightarrow> nat \<Rightarrow> uint32 \<Rightarrow> uint32" where
  "populate_entry poly 0 crc = crc"
| "populate_entry poly (Suc j) crc = populate_entry poly j (shift1 poly crc)"

definition simpleMakeTable :: "uint32 \<Rightarrow> byte \<Rightarrow> uint32" where
  "simpleMakeTable poly i = populate_entry poly 8 (ucast i)"

fun update_loop :: "(byte \<Rightarrow> uint32) \<Rightarrow> uint32 \<Rightarrow> byte list \<Rightarrow> uint32" where
  "update_loop tab crc [] = crc"
| "update_loop tab crc (v # p) =
     update_loop tab (tab ((ucast crc) XOR v) XOR (drop_bit 8 crc)) p"

definition simpleUpdate :: "uint32 \<Rightarrow> (byte \<Rightarrow> uint32) \<Rightarrow> byte list \<Rightarrow> uint32" where
  "simpleUpdate crc tab p = NOT (update_loop tab (NOT crc) p)"

definition ChecksumIEEE :: "byte list \<Rightarrow> uint32" where
  "ChecksumIEEE data = simpleUpdate 0 (simpleMakeTable IEEE) data"

definition NewChecksum :: "byte list \<Rightarrow> uint32" where
  "NewChecksum data = ChecksumIEEE data"

definition VerifyChecksum :: "byte list \<Rightarrow> uint32 \<Rightarrow> bool" where
  "VerifyChecksum data checksum = (NewChecksum data = checksum)"

section \<open>Errors and readers\<close>

text \<open>
  A Go \<open>error\<close> value is an \<open>error option\<close>, \<open>None\<close> being \<open>nil\<close>.  \<open>errors.New\<close> and
  \<open>errors.Wrap\<close> are those of \<open>github.com/pkg/errors\<close>; by that package's documentation
  \<open>Wrap\<close> of a \<open>nil\<close> error is \<open>nil\<close>.
\<close>

datatype error =
    EOF
  | ErrUnexpectedEOF
  | ErrorNew string
  | ErrorWrap error string

definition errors_New :: "string \<Rightarrow> error option" where
  "errors_New message = Some (ErrorNew message)"

fun errors_Wrap :: "error option \<Rightarrow> string \<Rightarrow> error option" where
  "errors_Wrap None message = None"
| "errors_Wrap (Some err) message = Some (ErrorWrap err message)"

text \<open>
  The \<open>io.Reader\<close> handed to the parsers is a \<open>bytes.Reader\<close>: its state is the list of
  unread bytes, and every parser returns the reader state it leaves behind as the last
  component of its result.  \<open>io.ReadFull\<close> fills a buffer of \<open>n\<close> bytes or fails with
  \<open>EOF\<close> (nothing read) or \<open>ErrUnexpectedEOF\<close> (too few bytes, all consumed).
\<close>

definition ReadFull :: "nat \<Rightarrow> byte list \<Rightarrow> error option \<times> byte list \<times> byte list" where
  "ReadFull n input =
     (if n \<le> length input then (None, take n input, drop n input)
      else if input = [] then (Some EOF, [], [])
      else (Some ErrUnexpectedEOF, input, []))"

text \<open>
  \<open>binary.Read(input, binary.LittleEndian, &x)\<close> reads as many bytes as \<open>x\<close> occupies
  and decodes them; on an error \<open>x\<close> keeps its old value.  The result is the error, the
  bytes to decode, and the reader state.
\<close>

definition binary_Read :: "nat \<Rightarrow> byte list \<Rightarrow> error option \<times> byte list \<times> byte list" where
  "binary_Read n input = ReadFull n input"

text \<open>\<open>bytes.Reader.Read\<close> into a buffer of \<open>n\<close> bytes: \<open>EOF\<close> when nothing is left.\<close>

definition Reader_Read :: "nat \<Rightarrow> byte list \<Rightarrow> error option \<times> byte list \<times> byte list" where
  "Reader_Read n input =
     (if input = [] then (Some EOF, [], [])
      else (None, take n input, drop n input))"

text \<open>
  Little-endian coding of a \<open>uint32\<close>.  The decoder is only ever applied to the four
  bytes \<open>binary.Read\<close> has read; on any other list it is 0.
\<close>

definition PutUint32 :: "uint32 \<Rightarrow> byte list" where
  "PutUint32 v = [ucast v, ucast (drop_bit 8 v), ucast (drop_bit 16 v), ucast (drop_bit 24 v)]"

fun Uint32 :: "byte list \<Rightarrow> uint32" where
  "Uint32 [b0, b1, b2, b3] =
     ucast b0 OR push_bit 8 (ucast b1) OR push_bit 16 (ucast b2) OR push_bit 24 (ucast b3)"
| "Uint32 bs = 0"

fun Uint8 :: "byte list \<Rightarrow> byte" where
  "Uint8 [b] = b"
| "Uint8 bs = 0"

section \<open>packet.go\<close>

type_synonym PacketType = byte

definition LoginPacketType :: PacketType where
  "LoginPacketType = 0x00"

definition CommandPacketType :: PacketType where
  "CommandPacketType = 0x01"

definition ServerMessagePacketType :: PacketType where
  "ServerMessagePacketType = 0x02"

definition UnknownPacketType :: PacketType where
  "UnknownPacketType = 0xff"

type_synonym LoginResponseType = byte

definition LoginSuccessful :: LoginResponseType where
  "LoginSuccessful = 0x01"

definition LoginFailed :: LoginResponseType where
  "LoginFailed = 0x00"

definition packetHeaderMagic :: "byte list" where
  "packetHeaderMagic = [0x42, 0x45]"

definition packetHeaderEnd :: byte where
  "packetHeaderEnd = 0xff"

record PacketHeader =
  Magic :: "byte list"
  Checksum :: uint32
  End :: byte

definition NewPacketHeader :: "uint32 \<Rightarrow> PacketHeader" where
  "NewPacketHeader checksum =
     \<lparr>Magic = packetHeaderMagic, Checksum = checksum, End = packetHeaderEnd\<rparr>"

definition Encode :: "PacketHeader \<Rightarrow> byte list" where
  "Encode ph = Magic ph @ PutUint32 (Checksum ph) @ [End ph]"

text \<open>
  \<open>ParseHeader\<close>, statement by statement.  The variable \<open>err\<close> of the source is the
  first component of each read; the last \<open>return\<close> before the successful one wraps that
  same variable.
\<close>

definition ParseHeader :: "byte list \<Rightarrow> PacketHeader \<times> error option \<times> byte list" where
  "ParseHeader input =
     (let ph = \<lparr>Magic = replicate 2 0, Checksum = 0, End = 0\<rparr>;
          (err, bs, input) = binary_Read 2 input
      in if err \<noteq> None then (ph, errors_Wrap err ''could not read packet header magic'', input)
      else let ph = ph\<lparr>Magic := bs\<rparr>
      in if Magic ph \<noteq> packetHeaderMagic
         then (ph, errors_New ''packet header magic mismatch'', input)
      else let (err, bs, input) = binary_Read 4 input
      in if err \<noteq> None
         then (ph, errors_Wrap err ''could not read packet header Checksum'', input)
      else let ph = ph\<lparr>Checksum := Uint32 bs\<rparr>;
               (err, bs, input) = binary_Read 1 input
      in if err \<noteq> None then (ph, errors_Wrap err ''could not read packet header end'', input)
      else let ph = ph\<lparr>End := Uint8 bs\<rparr>
      in if End ph \<noteq> packetHeaderEnd
         then (ph, errors_Wrap err ''packet header end mismatch'', input)
      else (ph, None, input))"

definition ParsePacketType :: "byte list \<Rightarrow> PacketType \<times> error option \<times> byte list" where
  "ParsePacketType input =
     (let (err, bs, input) = binary_Read 1 input
      in if err \<noteq> None
         then (UnknownPacketType, errors_Wrap err ''could not decode packet type'', input)
      else (Uint8 bs, None, input))"

definition ParseSequenceNumber :: "byte list \<Rightarrow> byte \<times> error option \<times> byte list" where
  "ParseSequenceNumber input =
     (let (err, bs, input) = binary_Read 1 input
      in if err \<noteq> None then (0, errors_Wrap err ''could not parse sequence number'', input)
      else (Uint8 bs, None, input))"

definition ParseCommand :: "byte list \<Rightarrow> byte list \<times> error option \<times> byte list" where
  "ParseCommand input =
     (let (err, buf, input) = Reader_Read 4098 input
      in if err \<noteq> None then ([], errors_Wrap err ''could not parse command'', input)
      else (buf, None, input))"

definition MakeLoginResponsePacket :: "LoginResponseType \<Rightarrow> byte list" where
  "MakeLoginResponsePacket responseType =
     (let payload = [LoginPacketType, responseType];
          header = NewPacketHeader (NewChecksum ([0xff] @ payload))
      in Encode header @ payload)"

definition MakeCommandResponsePacket :: "byte \<Rightarrow> byte list \<Rightarrow> byte list" where
  "MakeCommandResponsePacket seq data =
     (let payload = [CommandPacketType, seq] @ (if length data > 0 then data else []);
          header = NewPacketHeader (NewChecksum ([0xff] @ payload))
      in Encode header @ payload)"

definition MakeServerMessagePacket :: "byte \<Rightarrow> byte list \<Rightarrow> byte list" where
  "MakeServerMessagePacket seq data =
     (let payload = [ServerMessagePacketType, seq] @ (if length data > 0 then data else []);
          header = NewPacketHeader (NewChecksum ([0xff] @ payload))
      in Encode header @ payload)"

section \<open>Expiring tables\<close>

text \<open>
  The four tables are caches of \<open>github.com/patrickmn/go-cache\<close>: a map from string keys
  to items with an expiration instant in nanoseconds (0: never expires).  Only the
  operations the server calls are embedded.  The clock is an argument: \<open>now\<close> is the
  value of \<open>time.Now().UnixNano()\<close>, read once for the handling of one datagram.  An
  expired item stays in the map until it is overwritten, and no read observes it (the
  library's janitor, which also deletes it, is not modelled).  The map is an association
  list with one entry per key, so that \<open>Items\<close> can be iterated.
\<close>

record 'v Item =
  Object :: 'v
  Expiration :: int

type_synonym 'v Cache = "(string \<times> 'v Item) list"

definition Second :: int where
  "Second = 1000000000"

definition Minute :: int where
  "Minute = 60 * Second"

definition Expired :: "'v Item \<Rightarrow> int \<Rightarrow> bool" where
  "Expired item now = (if Expiration item = 0 then False else now > Expiration item)"

text \<open>
  \<open>Set\<close> with a positive duration \<open>d\<close>; the caches are built with
  \<open>cache.DefaultExpiration\<close>, which makes a non-positive \<open>d\<close> mean "never expires".
\<close>

definition Cache_Set :: "int \<Rightarrow> string \<Rightarrow> 'v \<Rightarrow> int \<Rightarrow> 'v Cache \<Rightarrow> 'v Cache" where
  "Cache_Set now k x d c =
     AList.update k \<lparr>Object = x, Expiration = (if d > 0 then now + d else 0)\<rparr> c"

definition Cache_Get :: "int \<Rightarrow> string \<Rightarrow> 'v Cache \<Rightarrow> 'v option" where
  "Cache_Get now k c =
     (case map_of c k of
        None \<Rightarrow> None
      | Some item \<Rightarrow> if Expired item now then None else Some (Object item))"

definition Cache_Items :: "int \<Rightarrow> 'v Cache \<Rightarrow> (string \<times> 'v Item) list" where
  "Cache_Items now c = filter (\<lambda>(k, item). \<not> Expired item now) c"

text \<open>\<open>IncrementInt\<close>: the new cache, the new value and the error.\<close>

definition Cache_IncrementInt ::
    "int \<Rightarrow> string \<Rightarrow> int \<Rightarrow> int Cache \<Rightarrow> int Cache \<times> int \<times> error option" where
  "Cache_IncrementInt now k n c =
     (case map_of c k of
        None \<Rightarrow> (c, 0, Some (ErrorNew ''Item not found''))
      | Some v \<Rightarrow>
          if Expired v now then (c, 0, Some (ErrorNew ''Item not found''))
          else let nv = Object v + n
               in (AList.update k (v\<lparr>Object := nv\<rparr>) c, nv, None))"

section \<open>The server\<close>

definition keepAliveCheck :: int where
  "keepAliveCheck = 50 * Second"

definition blockIpInterval :: int where
  "blockIpInterval = 30 * Minute"

definition loginTries :: int where
  "loginTries = 5"

text \<open>
  The fields of \<open>RCON\<close> that the packet handling reads or writes.  The socket \<open>conn\<close> is
  replaced by the list of datagrams written to it, and \<open>Logger\<close> by the list of lines
  logged, both returned by every handler; \<open>commandHandler\<close> is user code and is an
  argument of \<open>handlePacket\<close>.
\<close>

record RCON =
  password :: "byte list"
  clients :: "string Cache"
  blockedIp :: "bool Cache"
  wrongPasswordCounter :: "int Cache"
  ipBanList :: "string list"
  seqNumber :: uint32
  serverMessageAcknowledges :: "bool Cache"

definition NewRCON :: "byte list \<Rightarrow> RCON" where
  "NewRCON pw =
     \<lparr>password = pw, clients = [], blockedIp = [], wrongPasswordCounter = [],
      ipBanList = [], seqNumber = 0, serverMessageAcknowledges = []\<rparr>"

definition SetIPBanList :: "string list \<Rightarrow> RCON \<Rightarrow> RCON" where
  "SetIPBanList l r = r\<lparr>ipBanList := l\<rparr>"

text \<open>A datagram written to the socket: destination and contents.\<close>

type_synonym datagram = "string \<times> byte list"

text \<open>
  The lines the handlers log, one constructor per \<open>Printf\<close> of the source, with the
  values printed.  The line logged when a write to the socket fails depends on the socket
  alone and is left out.
\<close>

datatype log_line =
    HeaderError string "error option"
  | WrongChecksum string uint32 uint32
  | PacketTypeError string "error option"
  | WithoutAuthentication string PacketType
  | PasswordError string "error option"
  | SequenceError string "error option"
  | CommandError string "error option"
  | ServerMessageSequenceError string "error option"
  | WrongPassword string "byte list" int
  | IpBlocked string
  | Authenticated string

text \<open>\<open>strings.Split\<close> on a one-character separator, and \<open>strconv.Itoa\<close> on a natural number.\<close>

fun Split :: "string \<Rightarrow> char \<Rightarrow> string list" where
  "Split [] sep = [[]]"
| "Split (c # cs) sep =
     (if c = sep then [] # Split cs sep
      else (case Split cs sep of [] \<Rightarrow> [[c]] | p # ps \<Rightarrow> (c # p) # ps))"

definition addressWithoutPort :: "string \<Rightarrow> string" where
  "addressWithoutPort addr = (let parts = Split addr CHR '':'' in hd parts)"

function Itoa :: "nat \<Rightarrow> string" where
  "Itoa n = (if n < 10 then [char_of (48 + n)] else Itoa (n div 10) @ [char_of (48 + n mod 10)])"
  by pat_completeness auto
termination
  by (relation "measure id") auto

fun addressInBanList_loop :: "string list \<Rightarrow> string \<Rightarrow> bool" where
  "addressInBanList_loop [] addr = False"
| "addressInBanList_loop (a # as) addr = (if a = addr then True else addressInBanList_loop as addr)"

definition addressInBanList :: "RCON \<Rightarrow> string \<Rightarrow> bool" where
  "addressInBanList r addr = addressInBanList_loop (ipBanList r) addr"

fun addressInBlockedList_loop :: "(string \<times> bool Item) list \<Rightarrow> string \<Rightarrow> bool" where
  "addressInBlockedList_loop [] addr = False"
| "addressInBlockedList_loop ((ip, item) # items) addr =
     (if ip = addr then True else addressInBlockedList_loop items addr)"

definition addressInBlockedList :: "int \<Rightarrow> RCON \<Rightarrow> string \<Rightarrow> bool" where
  "addressInBlockedList now r addr =
     addressInBlockedList_loop (Cache_Items now (blockedIp r)) addr"

text \<open>
  \<open>NextSequenceNumber\<close>: \<open>Load\<close>, then \<open>Inc\<close> (which stores and returns the incremented
  value), then the reset.  The three atomic operations are run without interleaving.
\<close>

definition NextSequenceNumber :: "RCON \<Rightarrow> byte \<times> RCON" where
  "NextSequenceNumber r =
     (let number = seqNumber r;
          newNumber = seqNumber r + 1;
          r = r\<lparr>seqNumber := newNumber\<rparr>;
          r = (if newNumber > 255 then r\<lparr>seqNumber := 0\<rparr> else r)
      in (ucast number, r))"

type_synonym outcome = "RCON \<times> datagram list \<times> log_line list"

type_synonym commandHandler = "byte \<Rightarrow> byte list \<Rightarrow> string \<Rightarrow> RCON \<Rightarrow> outcome"

text \<open>\<open>SendResponse\<close>: the datagram handed to \<open>conn.WriteTo\<close>.\<close>

definition SendResponse :: "string \<Rightarrow> byte list \<Rightarrow> datagram list" where
  "SendResponse dest data = [(dest, data)]"

definition handleKeepAlive :: "string \<Rightarrow> byte \<Rightarrow> RCON \<Rightarrow> outcome" where
  "handleKeepAlive addr seq r = (r, SendResponse addr (MakeCommandResponsePacket seq []), [])"

text \<open>
  \<open>handleAuthentication\<close>.  The \<open>if\<close> on a wrong password has no \<open>return\<close>: whatever
  it did, control reaches the statements after it.
\<close>

definition handleAuthentication :: "int \<Rightarrow> string \<Rightarrow> byte list \<Rightarrow> RCON \<Rightarrow> outcome" where
  "handleAuthentication now addr passwd r =
     (let clientIP = addressWithoutPort addr;
          (r, sent, logged) =
            (if passwd \<noteq> password r then
               let sent = SendResponse addr (MakeLoginResponsePacket LoginFailed);
                   found = (Cache_Get now clientIP (wrongPasswordCounter r) \<noteq> None);
                   r = (if \<not> found
                        then r\<lparr>wrongPasswordCounter :=
                               Cache_Set now clientIP 0 blockIpInterval (wrongPasswordCounter r)\<rparr>
                        else r);
                   (counters, times, err) =
                     Cache_IncrementInt now clientIP 1 (wrongPasswordCounter r);
                   r = r\<lparr>wrongPasswordCounter := counters\<rparr>;
                   logged = [WrongPassword addr passwd times]
               in if times \<ge> loginTries
                  then (r\<lparr>blockedIp := Cache_Set now clientIP True blockIpInterval (blockedIp r)\<rparr>,
                        sent, logged @ [IpBlocked addr])
                  else (r, sent, logged)
             else (r, [], []))
      in (r\<lparr>clients := Cache_Set now addr addr keepAliveCheck (clients r)\<rparr>,
          sent @ SendResponse addr (MakeLoginResponsePacket LoginSuccessful),
          logged @ [Authenticated addr]))"

definition handlePacket ::
    "commandHandler option \<Rightarrow> int \<Rightarrow> string \<Rightarrow> byte list \<Rightarrow> RCON \<Rightarrow> outcome" where
  "handlePacket handler now addr data r =
     (let clientConnected = (Cache_Get now addr (clients r) \<noteq> None);
          (packetHeader, err, input) = ParseHeader data
      in if err \<noteq> None then (r, [], [HeaderError addr err])
      else if \<not> VerifyChecksum (drop 6 data) (Checksum packetHeader)
         then (r, [], [WrongChecksum addr (NewChecksum (drop 6 data)) (Checksum packetHeader)])
      else let (packetType, err, input) = ParsePacketType input
      in if err \<noteq> None then (r, [], [PacketTypeError addr err])
      else if \<not> clientConnected \<and> packetType \<noteq> LoginPacketType
         then (r, [], [WithoutAuthentication addr packetType])
      else if \<not> clientConnected \<and> packetType = LoginPacketType
         then (let (passwd, err, input) = ParseCommand input
               in if err \<noteq> None then (r, [], [PasswordError addr err])
                  else handleAuthentication now addr passwd r)
      else let r = r\<lparr>clients := Cache_Set now addr addr keepAliveCheck (clients r)\<rparr>
      in if packetType = CommandPacketType
         then (let (seq, err, input) = ParseSequenceNumber input
               in if err \<noteq> None then (r, [], [SequenceError addr err])
                  else if length input = 0 then handleKeepAlive addr seq r
                  else let (command, err, input) = ParseCommand input
                  in if err \<noteq> None then (r, [], [CommandError addr err])
                     else (case handler of
                             Some h \<Rightarrow> h seq command addr r
                           | None \<Rightarrow> (r, [], [])))
      else if packetType = ServerMessagePacketType
         then (let (seq, err, input) = ParseSequenceNumber input
               in if err \<noteq> None then (r, [], [ServerMessageSequenceError addr err])
                  else (r\<lparr>serverMessageAcknowledges :=
                            Cache_Set now (addr @ ''_'' @ Itoa (unat seq)) True (15 * Second)
                              (serverMessageAcknowledges r)\<rparr>, [], []))
      else (r, [], []))"

text \<open>
  One iteration of the loop of \<open>ListenAndServe\<close> on a datagram \<open>packet\<close> received from
  \<open>addr\<close> at time \<open>now\<close>: the read buffer holds 4096 bytes.  The loop itself runs over
  the list of arrivals; every \<open>go r.handlePacket\<close> is run to its end before the next
  datagram is read.
\<close>

definition ListenAndServe_iteration ::
    "commandHandler option \<Rightarrow> int \<Rightarrow> string \<Rightarrow> byte list \<Rightarrow> RCON \<Rightarrow> outcome" where
  "ListenAndServe_iteration handler now addr packet r =
     (let buf = take 4096 packet;
          clientIP = addressWithoutPort addr
      in if addressInBanList r clientIP \<or> addressInBlockedList now r clientIP
         then (r, [], [])
         else handlePacket handler now addr buf r)"

fun ListenAndServe_loop ::
    "commandHandler option \<Rightarrow> (int \<times> string \<times> byte list) list \<Rightarrow> RCON \<Rightarrow> outcome" where
  "ListenAndServe_loop handler [] r = (r, [], [])"
| "ListenAndServe_loop handler ((now, addr, packet) # arrivals) r =
     (let (r, sent, logged) = ListenAndServe_iteration handler now addr packet r;
          (r, sent', logged') = ListenAndServe_loop handler arrivals r
      in (r, sent @ sent', logged @ logged'))"

text \<open>\<open>n\<close> successive calls of \<open>NextSequenceNumber\<close>: the values returned, in order.\<close>

fun NextSequenceNumber_calls :: "nat \<Rightarrow> RCON \<Rightarrow> byte list \<times> RCON" where
  "NextSequenceNumber_calls 0 r = ([], r)"
| "NextSequenceNumber_calls (Suc n) r =
     (let (s, r) = NextSequenceNumber r;
          (ss, r) = NextSequenceNumber_calls n r
      in (s # ss, r))"

text \<open>
  What the parsers make of a datagram carrying a command packet, in the order in which
  \<open>handlePacket\<close> calls them: header, checksum over \<open>data[6:]\<close>, packet type, sequence
  number, then either nothing left (a keep-alive) or the command.
\<close>

datatype decoded = KeepAlive byte | Command byte "byte list"

definition decodeCommandPacket :: "byte list \<Rightarrow> decoded option" where
  "decodeCommandPacket data =
     (let (packetHeader, err, input) = ParseHeader data
      in if err \<noteq> None then None
      else if \<not> VerifyChecksum (drop 6 data) (Checksum packetHeader) then None
      else let (packetType, err, input) = ParsePacketType input
      in if err \<noteq> None then None
      else if packetType \<noteq> CommandPacketType then None
      else let (seq, err, input) = ParseSequenceNumber input
      in if err \<noteq> None then None
      else if length input = 0 then Some (KeepAlive seq)
      else let (command, err, input) = ParseCommand input
      in if err \<noteq> None then None
      else Some (Command seq command))"

section \<open>The checksum\<close>

lemma populate_entry_8:
  "populate_entry poly 8 crc =
     shift1 poly (shift1 poly (shift1 poly (shift1 poly
       (shift1 poly (shift1 poly (shift1 poly (shift1 poly crc)))))))"
proof -
  have h: "(8::nat) = Suc (Suc (Suc (Suc (Suc (Suc (Suc (Suc 0)))))))" by simp
  show ?thesis by (subst h) (simp only: populate_entry.simps)
qed

lemma complement_zero: "NOT (0::uint32) = 0xFFFFFFFF"
  by simp

lemma NewChecksum_unfold:
  "NewChecksum p = NOT (update_loop (simpleMakeTable IEEE) 0xFFFFFFFF p)"
  by (simp only: NewChecksum_def ChecksumIEEE_def simpleUpdate_def complement_zero)

lemma update_loop_test:
  "update_loop (simpleMakeTable IEEE) 0xFFFFFFFF [116, 101, 115, 116] = NOT 3632233996"
  by (simp add: simpleMakeTable_def populate_entry_8 shift1_def IEEE_def)

lemma update_loop_testeeee:
  "update_loop (simpleMakeTable IEEE) 0xFFFFFFFF
     [255, 0, 116, 101, 115, 116, 101, 101, 101, 101] = NOT 353074917"
  by (simp add: simpleMakeTable_def populate_entry_8 shift1_def IEEE_def)

text \<open>
  Claim C9.  The checksum is the IEEE CRC-32 of the reflected polynomial: the two values
  of \<open>TestNewChecksum\<close> come out (the bytes of "test" give 3632233996, and 0xFF, 0x00
  followed by the bytes of "testeeee" give 353074917), and \<open>VerifyChecksum D x\<close> is
  true exactly when \<open>x\<close> is the checksum of \<open>D\<close>.
\<close>

theorem checksum_is_crc32_ieee:
  "NewChecksum [116, 101, 115, 116] = 3632233996
   \<and> NewChecksum [255, 0, 116, 101, 115, 116, 101, 101, 101, 101] = 353074917
   \<and> VerifyChecksum D x = (x = NewChecksum D)"
proof -
  have a: "NewChecksum [116, 101, 115, 116] = 3632233996"
    by (simp only: NewChecksum_unfold update_loop_test) simp
  have b: "NewChecksum [255, 0, 116, 101, 115, 116, 101, 101, 101, 101] = 353074917"
    by (simp only: NewChecksum_unfold update_loop_testeeee) simp
  have c: "VerifyChecksum D x = (x = NewChecksum D)"
    by (auto simp: VerifyChecksum_def)
  from a b c show ?thesis by blast
qed

section \<open>The header codec\<close>

lemma Uint32_PutUint32: "Uint32 (PutUint32 v) = v"
  unfolding PutUint32_def Uint32.simps
proof (rule bit_word_eqI)
  fix n :: nat
  assume n: "n < LENGTH(32)"
  consider "n < 8" | "8 \<le> n" "n < 16" | "16 \<le> n" "n < 24" | "24 \<le> n"
    by linarith
  then show "bit (ucast (ucast v :: byte) OR push_bit 8 (ucast (ucast (drop_bit 8 v) :: byte))
                OR push_bit 16 (ucast (ucast (drop_bit 16 v) :: byte))
                OR push_bit 24 (ucast (ucast (drop_bit 24 v) :: byte)) :: uint32) n = bit v n"
    using n by cases (auto simp: bit_simps)
qed

lemma length_PutUint32: "length (PutUint32 v) = 4"
  by (simp add: PutUint32_def)

lemma length_Encode_NewPacketHeader: "length (Encode (NewPacketHeader c)) = 7"
  by (simp add: Encode_def NewPacketHeader_def packetHeaderMagic_def length_PutUint32)

lemma ParseHeader_Encode:
  "ParseHeader (Encode (NewPacketHeader c) @ payload) = (NewPacketHeader c, None, payload)"
  by (simp add: ParseHeader_def Encode_def NewPacketHeader_def packetHeaderMagic_def
      packetHeaderEnd_def binary_Read_def ReadFull_def length_PutUint32 Uint32_PutUint32)

lemma drop_6_Encode:
  "drop 6 (Encode (NewPacketHeader c) @ payload) = 0xff # payload"
  by (simp add: Encode_def NewPacketHeader_def packetHeaderMagic_def
      packetHeaderEnd_def length_PutUint32)

text \<open>
  Whatever the seventh byte is, a header with the magic and four checksum bytes is
  returned without an error: the mismatch branch wraps the \<open>nil\<close> error of the read
  before it.
\<close>

lemma ParseHeader_trailer_unchecked:
  "ParseHeader ([0x42, 0x45, c0, c1, c2, c3, t] @ rest) =
     (\<lparr>Magic = [0x42, 0x45], Checksum = Uint32 [c0, c1, c2, c3], End = t\<rparr>, None, rest)"
  by (simp add: ParseHeader_def binary_Read_def ReadFull_def packetHeaderMagic_def
      packetHeaderEnd_def Let_def)

text \<open>
  Claim C2.  The claim asks for a failure with a trailer-mismatch cause when the seventh
  byte is not 0xFF.  On the seven bytes "BE", four zero bytes and a trailer 0x00,
  \<open>ParseHeader\<close> returns the header read, with \<open>End = 0\<close>, and no error.
\<close>

theorem ParseHeader_accepts_wrong_trailer:
  "ParseHeader [0x42, 0x45, 0, 0, 0, 0, 0] =
     (\<lparr>Magic = [0x42, 0x45], Checksum = 0, End = 0\<rparr>, None, [])"
  by (simp add: ParseHeader_def binary_Read_def ReadFull_def packetHeaderMagic_def
      packetHeaderEnd_def)

section \<open>The sequence allocator\<close>

lemma NextSequenceNumber_of_nat:
  assumes "seqNumber r = of_nat k" and "k < 256"
  shows "NextSequenceNumber r = (of_nat k, r\<lparr>seqNumber := of_nat (Suc k mod 256)\<rparr>)"
proof -
  have u: "unat (of_nat (Suc k) :: uint32) = Suc k"
    using assms(2) by (simp only: unat_of_nat) simp
  have gt: "((255::uint32) < of_nat k + 1) = (k = 255)"
  proof -
    have e: "(of_nat k + 1 :: uint32) = of_nat (Suc k)" by simp
    have "((255::uint32) < of_nat (Suc k)) = (255 < Suc k)"
      by (simp only: word_less_nat_alt u) simp
    then have "((255::uint32) < of_nat k + 1) = (255 < Suc k)"
      by (simp only: e)
    also have "\<dots> = (k = 255)" using assms(2) by auto
    finally show ?thesis .
  qed
  have c: "(ucast (of_nat k :: uint32) :: byte) = of_nat k"
  proof -
    have "k < 2 ^ 32" using assms(2) by simp
    then have "take_bit 32 k = k" by (rule take_bit_nat_eq_self)
    then show ?thesis by (simp add: unsigned_of_nat)
  qed
  show ?thesis
  proof (cases "k = 255")
    case True
    then show ?thesis
      using gt c by (simp add: NextSequenceNumber_def assms(1) Let_def)
  next
    case False
    then have "Suc k mod 256 = Suc k" using assms(2) by simp
    then show ?thesis
      using gt c False by (simp add: NextSequenceNumber_def assms(1) Let_def)
  qed
qed

lemma NextSequenceNumber_calls_from:
  "seqNumber r = of_nat k \<Longrightarrow> k < 256 \<Longrightarrow>
   fst (NextSequenceNumber_calls n r) = map (\<lambda>i. of_nat ((k + i) mod 256)) [0..<n]"
proof (induction n arbitrary: r k)
  case 0
  then show ?case by simp
next
  case (Suc n)
  let ?r = "r\<lparr>seqNumber := of_nat (Suc k mod 256)\<rparr>"
  have step: "NextSequenceNumber r = (of_nat k, ?r)"
    using Suc.prems by (rule NextSequenceNumber_of_nat)
  have "seqNumber ?r = of_nat (Suc k mod 256)" by simp
  moreover have "Suc k mod 256 < 256" by simp
  ultimately have ih: "fst (NextSequenceNumber_calls n ?r) =
      map (\<lambda>i. of_nat ((Suc k mod 256 + i) mod 256)) [0..<n]"
    by (rule Suc.IH)
  have m: "\<And>i. (Suc k mod 256 + i) mod 256 = (k + Suc i) mod 256"
    by (simp add: mod_add_left_eq)
  have "fst (NextSequenceNumber_calls (Suc n) r) =
      of_nat k # fst (NextSequenceNumber_calls n ?r)"
    by (simp add: step split: prod.splits)
  also have "\<dots> = of_nat ((k + 0) mod 256) # map (\<lambda>i. of_nat ((k + Suc i) mod 256)) [0..<n]"
    using Suc.prems(2) by (simp add: ih m)
  also have "\<dots> = map (\<lambda>i. of_nat ((k + i) mod 256)) [0..<Suc n]"
    by (simp only: map_upt_Suc)
  finally show ?case .
qed

text \<open>
  Claim C3, amended.  \<open>NextSequenceNumber\<close> returns the value before the increment,
  cut to 8 bits, and resets the register to 0 whenever the incremented value exceeds 255;
  from the initial register 0 the \<open>n\<close> first calls return \<open>0, 1, \<dots>, 255, 0, 1, \<dots>\<close>:
  call number \<open>i\<close> (counted from 0) returns \<open>i mod 256\<close>.
\<close>

theorem NextSequenceNumber_cycles:
  "fst (NextSequenceNumber r) = ucast (seqNumber r)
   \<and> seqNumber (snd (NextSequenceNumber r)) =
       (if seqNumber r + 1 > 255 then 0 else seqNumber r + 1)
   \<and> fst (NextSequenceNumber_calls n (NewRCON pw)) = map (\<lambda>i. of_nat (i mod 256)) [0..<n]"
proof -
  have a: "fst (NextSequenceNumber r) = ucast (seqNumber r)"
    by (simp add: NextSequenceNumber_def Let_def)
  have b: "seqNumber (snd (NextSequenceNumber r)) =
       (if seqNumber r + 1 > 255 then 0 else seqNumber r + 1)"
    by (simp add: NextSequenceNumber_def Let_def)
  have "seqNumber (NewRCON pw) = of_nat 0" by (simp add: NewRCON_def)
  then have c: "fst (NextSequenceNumber_calls n (NewRCON pw)) =
      map (\<lambda>i. of_nat ((0 + i) mod 256)) [0..<n]"
    by (rule NextSequenceNumber_calls_from) simp
  from a b c show ?thesis by simp
qed

text \<open>
  Claim C3 as stated has 1 follow 255.  The call after the one that returns 255 returns 0.
\<close>

theorem NextSequenceNumber_zero_after_wrap:
  "fst (NextSequenceNumber_calls 257 (NewRCON [])) ! 255 = 255
   \<and> fst (NextSequenceNumber_calls 257 (NewRCON [])) ! 256 = 0
   \<and> fst (NextSequenceNumber_calls 257 (NewRCON [])) ! 256 \<noteq> 1"
proof -
  have "seqNumber (NewRCON []) = of_nat 0" by (simp add: NewRCON_def)
  then have c: "fst (NextSequenceNumber_calls 257 (NewRCON [])) =
      map (\<lambda>i. of_nat ((0 + i) mod 256)) [0..<257]"
    by (rule NextSequenceNumber_calls_from) simp
  show ?thesis by (simp add: c)
qed

section \<open>Decoding what the builders build\<close>

lemma VerifyChecksum_NewChecksum: "VerifyChecksum data (NewChecksum data)"
  by (simp add: VerifyChecksum_def)

lemma Checksum_NewPacketHeader: "Checksum (NewPacketHeader c) = c"
  by (simp add: NewPacketHeader_def)

lemma ParsePacketType_Cons: "ParsePacketType (t # input) = (t, None, input)"
  by (simp add: ParsePacketType_def binary_Read_def ReadFull_def)

lemma ParseSequenceNumber_Cons: "ParseSequenceNumber (s # input) = (s, None, input)"
  by (simp add: ParseSequenceNumber_def binary_Read_def ReadFull_def)

lemma ParseCommand_Nil: "ParseCommand [] = ([], Some (ErrorWrap EOF ''could not parse command''), [])"
  by (simp add: ParseCommand_def Reader_Read_def)

lemma ParseCommand_nonempty:
  "input \<noteq> [] \<Longrightarrow> ParseCommand input = (take 4098 input, None, drop 4098 input)"
  by (simp add: ParseCommand_def Reader_Read_def)

lemma MakeCommandResponsePacket_framed:
  "MakeCommandResponsePacket s c =
     Encode (NewPacketHeader (NewChecksum (0xff # CommandPacketType # s # c)))
       @ CommandPacketType # s # c"
  by (simp add: MakeCommandResponsePacket_def Let_def)

lemma decodeCommandPacket_framed:
  "decodeCommandPacket
     (Encode (NewPacketHeader (NewChecksum (0xff # CommandPacketType # s # c)))
        @ CommandPacketType # s # c) =
   Some (if c = [] then KeepAlive s else Command s (take 4098 c))"
  by (simp add: decodeCommandPacket_def ParseHeader_Encode drop_6_Encode
      VerifyChecksum_NewChecksum Checksum_NewPacketHeader ParsePacketType_Cons
      ParseSequenceNumber_Cons ParseCommand_nonempty del: drop_append)

lemma decodeCommandPacket_MakeCommandResponsePacket:
  "decodeCommandPacket (MakeCommandResponsePacket s c) =
     Some (if c = [] then KeepAlive s else Command s (take 4098 c))"
  by (simp only: MakeCommandResponsePacket_framed decodeCommandPacket_framed)

text \<open>
  Claim C5, amended.  For every sequence number \<open>s\<close> and every byte string \<open>c\<close> of at
  most 4098 bytes, the datagram \<open>MakeCommandResponsePacket s c\<close> parses back: the header
  is read without error, its checksum verifies over the bytes from offset 6 to the end,
  the packet type is 0x01, the sequence number is \<open>s\<close> and the command is \<open>c\<close>; when
  \<open>c\<close> is empty nothing is left after the sequence number and the datagram is a
  keep-alive with sequence number \<open>s\<close>.
\<close>

theorem command_response_round_trip:
  assumes "length c \<le> 4098"
  shows "fst (snd (ParseHeader (MakeCommandResponsePacket s c))) = None
    \<and> VerifyChecksum (drop 6 (MakeCommandResponsePacket s c))
         (Checksum (fst (ParseHeader (MakeCommandResponsePacket s c))))
    \<and> MakeCommandResponsePacket s c ! 7 = CommandPacketType
    \<and> decodeCommandPacket (MakeCommandResponsePacket s c) =
         Some (if c = [] then KeepAlive s else Command s c)"
proof -
  let ?d = "MakeCommandResponsePacket s c"
  have h: "ParseHeader ?d =
      (NewPacketHeader (NewChecksum (0xff # CommandPacketType # s # c)), None,
       CommandPacketType # s # c)"
    by (simp only: MakeCommandResponsePacket_framed ParseHeader_Encode)
  have v: "VerifyChecksum (drop 6 ?d) (Checksum (fst (ParseHeader ?d)))"
    by (simp only: h) (simp add: MakeCommandResponsePacket_framed drop_6_Encode
        VerifyChecksum_NewChecksum Checksum_NewPacketHeader del: drop_append)
  have t: "?d ! 7 = CommandPacketType"
    by (simp add: MakeCommandResponsePacket_framed nth_append length_Encode_NewPacketHeader)
  have d: "decodeCommandPacket ?d = Some (if c = [] then KeepAlive s else Command s c)"
    using assms by (simp add: decodeCommandPacket_MakeCommandResponsePacket)
  from h v t d show ?thesis by simp
qed

theorem command_response_round_trip_witness:
  "length ([0x68, 0x69] :: byte list) \<le> 4098
   \<and> decodeCommandPacket (MakeCommandResponsePacket 7 [0x68, 0x69]) =
       Some (Command 7 [0x68, 0x69])
   \<and> decodeCommandPacket (MakeCommandResponsePacket 0x42 []) = Some (KeepAlive 0x42)"
proof -
  have a: "length ([0x68, 0x69] :: byte list) \<le> 4098" by simp
  have b: "length ([] :: byte list) \<le> 4098" by simp
  from a command_response_round_trip [OF a, of 7] command_response_round_trip [OF b, of "0x42"]
  show ?thesis by simp
qed

text \<open>
  Claim C5 as stated ranges over every byte string.  \<open>ParseCommand\<close> reads once into a
  buffer of 4098 bytes: of a command of 4099 zero bytes only the first 4098 come back.
\<close>

theorem command_response_cut_at_4098:
  "decodeCommandPacket (MakeCommandResponsePacket 0 (replicate 4099 0)) =
     Some (Command 0 (replicate 4098 0))
   \<and> decodeCommandPacket (MakeCommandResponsePacket 0 (replicate 4099 0)) \<noteq>
     Some (Command 0 (replicate 4099 0))"
  by (simp add: decodeCommandPacket_MakeCommandResponsePacket)

lemma MakeCommandResponsePacket_type: "MakeCommandResponsePacket s c ! 7 = CommandPacketType"
  by (simp add: MakeCommandResponsePacket_framed nth_append length_Encode_NewPacketHeader)

section \<open>Packet handling\<close>

lemma addressWithoutPort_example: "addressWithoutPort ''10.0.0.1:5000'' = ''10.0.0.1''"
  by (simp add: addressWithoutPort_def)

lemma ParseHeader_None:
  assumes "ParseHeader data = (ph, None, input)"
  shows "7 \<le> length data \<and> input = drop 7 data"
  using assms
  by (auto simp: ParseHeader_def binary_Read_def ReadFull_def Let_def errors_New_def
      split: if_splits)

lemma ParsePacketType_None:
  assumes "ParsePacketType input = (t, None, rest)"
  shows "input \<noteq> [] \<and> t = hd input \<and> rest = tl input"
proof (cases input)
  case Nil
  with assms show ?thesis
    by (simp add: ParsePacketType_def binary_Read_def ReadFull_def)
next
  case (Cons b bs)
  with assms show ?thesis
    by (simp add: ParsePacketType_def binary_Read_def ReadFull_def)
qed

text \<open>
  Claim C6.  When the peer has no live entry in the session table and the byte at offset
  7 of the datagram, if there is one, is not the login type, \<open>handlePacket\<close> returns the
  state it was given (all four tables and the sequence counter) and writes nothing to the
  socket; only a line is logged.
\<close>

theorem unauthenticated_non_login_ignored:
  assumes "Cache_Get now addr (clients r) = None"
    and "length data \<le> 7 \<or> data ! 7 \<noteq> LoginPacketType"
  shows "fst (handlePacket handler now addr data r) = r
    \<and> fst (snd (handlePacket handler now addr data r)) = []"
proof -
  obtain ph err input where ph: "ParseHeader data = (ph, err, input)"
    by (cases "ParseHeader data") auto
  show ?thesis
  proof (cases "err = None")
    case False
    then show ?thesis by (simp add: handlePacket_def Let_def ph)
  next
    case True
    with ph have len: "7 \<le> length data" and input: "input = drop 7 data"
      using ParseHeader_None by blast+
    obtain t err' rest where t: "ParsePacketType input = (t, err', rest)"
      by (cases "ParsePacketType input") auto
    show ?thesis
    proof (cases "err' = None")
      case False
      then show ?thesis
        by (simp add: handlePacket_def Let_def ph True t)
    next
      case None: True
      with t have ne: "input \<noteq> []" and hd: "t = hd input"
        using ParsePacketType_None by blast+
      from ne input have "7 < length data" by simp
      moreover from this input hd have "t = data ! 7"
        by (simp add: hd_drop_conv_nth)
      ultimately have "t \<noteq> LoginPacketType" using assms(2) by auto
      then show ?thesis
        by (simp add: handlePacket_def Let_def ph True t None assms(1))
    qed
  qed
qed

theorem unauthenticated_non_login_ignored_witness:
  "Cache_Get 1000000000 ''10.0.0.1:5000'' (clients (NewRCON [0x78])) = None
   \<and> MakeCommandResponsePacket 0x42 [] ! 7 \<noteq> LoginPacketType
   \<and> fst (handlePacket None 1000000000 ''10.0.0.1:5000''
        (MakeCommandResponsePacket 0x42 []) (NewRCON [0x78])) = NewRCON [0x78]
   \<and> fst (snd (handlePacket None 1000000000 ''10.0.0.1:5000''
        (MakeCommandResponsePacket 0x42 []) (NewRCON [0x78]))) = []"
proof -
  have a: "Cache_Get 1000000000 ''10.0.0.1:5000'' (clients (NewRCON [0x78])) = None"
    by (simp add: Cache_Get_def NewRCON_def)
  have b: "MakeCommandResponsePacket 0x42 [] ! 7 \<noteq> LoginPacketType"
    by (simp add: MakeCommandResponsePacket_type CommandPacketType_def LoginPacketType_def)
  then have c: "length (MakeCommandResponsePacket 0x42 []) \<le> 7
      \<or> MakeCommandResponsePacket 0x42 [] ! 7 \<noteq> LoginPacketType" ..
  from a b unauthenticated_non_login_ignored [OF a c, of None] show ?thesis by simp
qed

lemma addressInBanList_iff: "addressInBanList r a = (a \<in> set (ipBanList r))"
proof -
  have "addressInBanList_loop l a = (a \<in> set l)" for l
    by (induction l) auto
  then show ?thesis by (simp add: addressInBanList_def)
qed

lemma addressInBlockedList_iff:
  "addressInBlockedList now r a = (a \<in> fst ` set (Cache_Items now (blockedIp r)))"
proof -
  have "addressInBlockedList_loop l a = (a \<in> fst ` set l)" for l :: "(string \<times> bool Item) list"
    by (induction l) (auto simp: rev_image_eqI)
  then show ?thesis by (simp add: addressInBlockedList_def)
qed

text \<open>
  The filter of the serving loop.  When what \<open>addressWithoutPort\<close> makes of the source
  address is in the static ban list or has a live entry in the block table, the iteration
  leaves the state as it is, writes nothing and logs nothing: \<open>handlePacket\<close> is not
  called.
\<close>

lemma filtered_source_discarded:
  assumes "addressWithoutPort addr \<in> set (ipBanList r)
     \<or> addressWithoutPort addr \<in> fst ` set (Cache_Items now (blockedIp r))"
  shows "ListenAndServe_iteration handler now addr packet r = (r, [], [])"
  using assms
  by (simp add: ListenAndServe_iteration_def addressInBanList_iff addressInBlockedList_iff)

lemma filtered_source_discarded_example:
  "addressWithoutPort ''10.0.0.1:5000'' \<in> set (ipBanList (SetIPBanList [''10.0.0.1''] (NewRCON [0x78])))
   \<and> ListenAndServe_iteration None 1000000000 ''10.0.0.1:5000''
       (Encode (NewPacketHeader (NewChecksum [0xff, LoginPacketType, 0x78]))
          @ [LoginPacketType, 0x78])
       (SetIPBanList [''10.0.0.1''] (NewRCON [0x78])) =
     (SetIPBanList [''10.0.0.1''] (NewRCON [0x78]), [], [])"
proof -
  have a: "addressWithoutPort ''10.0.0.1:5000''
      \<in> set (ipBanList (SetIPBanList [''10.0.0.1''] (NewRCON [0x78])))"
    by (simp add: addressWithoutPort_example SetIPBanList_def NewRCON_def)
  then have b: "addressWithoutPort ''10.0.0.1:5000''
        \<in> set (ipBanList (SetIPBanList [''10.0.0.1''] (NewRCON [0x78])))
      \<or> addressWithoutPort ''10.0.0.1:5000''
        \<in> fst ` set (Cache_Items 1000000000
             (blockedIp (SetIPBanList [''10.0.0.1''] (NewRCON [0x78]))))" ..
  from a filtered_source_discarded [OF b, of None] show ?thesis by simp
qed

text \<open>
  \<open>addressWithoutPort\<close> returns the text before the first colon.  For an address of the
  form \<open>ip:port\<close> whose \<open>ip\<close> has no colon (the IPv4 form) that is \<open>ip\<close>, and a banned
  or blocked \<open>ip\<close> is discarded.
\<close>

lemma Split_before_separator:
  "sep \<notin> set ip \<Longrightarrow> Split (ip @ sep # port) sep = ip # Split port sep"
  by (induction ip) auto

lemma addressWithoutPort_no_colon:
  "CHR '':'' \<notin> set ip \<Longrightarrow> addressWithoutPort (ip @ CHR '':'' # port) = ip"
  by (simp add: addressWithoutPort_def Split_before_separator)

lemma colon_free_source_discarded:
  assumes "CHR '':'' \<notin> set ip"
    and "ip \<in> set (ipBanList r) \<or> ip \<in> fst ` set (Cache_Items now (blockedIp r))"
  shows "ListenAndServe_iteration handler now (ip @ CHR '':'' # port) packet r = (r, [], [])"
  using assms
  by (simp add: ListenAndServe_iteration_def addressInBanList_iff addressInBlockedList_iff
      addressWithoutPort_no_colon)

lemma handlePacket_keep_alive:
  assumes "Cache_Get now addr (clients r) \<noteq> None"
    and "decodeCommandPacket data = Some (KeepAlive s)"
  shows "handlePacket handler now addr data r =
     (r\<lparr>clients := Cache_Set now addr addr keepAliveCheck (clients r)\<rparr>,
      [(addr, MakeCommandResponsePacket s [])], [])"
proof -
  obtain ph err input where ph: "ParseHeader data = (ph, err, input)"
    by (cases "ParseHeader data") auto
  obtain t err' input' where t: "ParsePacketType input = (t, err', input')"
    by (cases "ParsePacketType input") auto
  obtain q err'' input'' where q: "ParseSequenceNumber input' = (q, err'', input'')"
    by (cases "ParseSequenceNumber input'") auto
  obtain c e4 i4 where c: "ParseCommand input'' = (c, e4, i4)"
    by (cases "ParseCommand input''") auto
  from assms(2) have "err = None \<and> VerifyChecksum (drop 6 data) (Checksum ph) \<and> err' = None
      \<and> t = CommandPacketType \<and> err'' = None \<and> input'' = [] \<and> q = s"
    by (simp add: decodeCommandPacket_def ph t q c split: if_splits)
  then show ?thesis
    using assms(1)
    by (simp add: handlePacket_def Let_def ph t q handleKeepAlive_def SendResponse_def)
qed

text \<open>
  Claim C8.  When the peer has a live session and the datagram decodes as a command packet
  with sequence number \<open>s\<close> and nothing after it, \<open>handlePacket\<close> writes exactly one
  datagram, \<open>MakeCommandResponsePacket s []\<close>, to that peer, and the only change of state
  is that the peer's session entry is set again, expiring 50 seconds after \<open>now\<close>.
\<close>

theorem keep_alive_echo:
  assumes "Cache_Get now addr (clients r) \<noteq> None"
    and "decodeCommandPacket data = Some (KeepAlive s)"
  shows "fst (snd (handlePacket handler now addr data r)) =
       [(addr, MakeCommandResponsePacket s [])]
    \<and> fst (handlePacket handler now addr data r) =
       r\<lparr>clients := Cache_Set now addr addr keepAliveCheck (clients r)\<rparr>
    \<and> map_of (clients (fst (handlePacket handler now addr data r))) addr =
       Some \<lparr>Object = addr, Expiration = now + 50 * Second\<rparr>"
  by (simp add: handlePacket_keep_alive [OF assms] Cache_Set_def keepAliveCheck_def
      Second_def update_conv')

theorem keep_alive_echo_witness:
  "Cache_Get 1000000000 ''10.0.0.1:5000''
      (clients ((NewRCON [0x78])\<lparr>clients :=
         Cache_Set 0 ''10.0.0.1:5000'' ''10.0.0.1:5000'' keepAliveCheck []\<rparr>)) \<noteq> None
   \<and> decodeCommandPacket (MakeCommandResponsePacket 0x42 []) = Some (KeepAlive 0x42)
   \<and> fst (snd (handlePacket None 1000000000 ''10.0.0.1:5000''
        (MakeCommandResponsePacket 0x42 [])
        ((NewRCON [0x78])\<lparr>clients :=
           Cache_Set 0 ''10.0.0.1:5000'' ''10.0.0.1:5000'' keepAliveCheck []\<rparr>))) =
      [(''10.0.0.1:5000'', MakeCommandResponsePacket 0x42 [])]"
proof -
  let ?r = "(NewRCON [0x78])\<lparr>clients :=
         Cache_Set 0 ''10.0.0.1:5000'' ''10.0.0.1:5000'' keepAliveCheck []\<rparr>"
  have a: "Cache_Get 1000000000 ''10.0.0.1:5000'' (clients ?r) \<noteq> None"
    by (simp add: Cache_Get_def Cache_Set_def keepAliveCheck_def Second_def Expired_def)
  have b: "decodeCommandPacket (MakeCommandResponsePacket 0x42 []) = Some (KeepAlive 0x42)"
    by (simp add: decodeCommandPacket_MakeCommandResponsePacket)
  from a b keep_alive_echo [OF a b, of None] show ?thesis by simp
qed

lemma handlePacket_login:
  assumes "Cache_Get now addr (clients r) = None"
  shows "handlePacket handler now addr
       (Encode (NewPacketHeader (NewChecksum (0xff # LoginPacketType # pw)))
          @ LoginPacketType # pw) r =
     (if pw = [] then (r, [], [PasswordError addr (Some (ErrorWrap EOF ''could not parse command''))])
      else handleAuthentication now addr (take 4098 pw) r)"
  using assms
  by (simp add: handlePacket_def Let_def ParseHeader_Encode drop_6_Encode
      VerifyChecksum_NewChecksum Checksum_NewPacketHeader ParsePacketType_Cons
      ParseCommand_nonempty ParseCommand_Nil del: drop_append)

lemma handlePacket_login_connected:
  assumes "Cache_Get now addr (clients r) \<noteq> None"
  shows "handlePacket handler now addr
       (Encode (NewPacketHeader (NewChecksum (0xff # LoginPacketType # pw)))
          @ LoginPacketType # pw) r =
     (r\<lparr>clients := Cache_Set now addr addr keepAliveCheck (clients r)\<rparr>, [], [])"
  using assms
  by (simp add: handlePacket_def Let_def ParseHeader_Encode drop_6_Encode
      VerifyChecksum_NewChecksum Checksum_NewPacketHeader ParsePacketType_Cons
      LoginPacketType_def CommandPacketType_def ServerMessagePacketType_def del: drop_append)

text \<open>
  Claim C10.  A login datagram with a well-formed header and a correct checksum but no
  byte after the packet type, from a peer without a session: reading the password fails
  with the end-of-input error wrapped as "could not parse command", the state is
  returned as it was (no session, wrong-password counter and block table untouched) and
  nothing is written to the socket, not even a failed-login response.
\<close>

theorem empty_login_dropped:
  assumes "Cache_Get now addr (clients r) = None"
  shows "handlePacket handler now addr
       (Encode (NewPacketHeader (NewChecksum [0xff, LoginPacketType])) @ [LoginPacketType]) r =
     (r, [], [PasswordError addr (Some (ErrorWrap EOF ''could not parse command''))])"
  by (simp add: handlePacket_login [OF assms])

theorem empty_login_dropped_witness:
  "Cache_Get 1000000000 ''10.0.0.1:5000'' (clients (NewRCON [0x78])) = None
   \<and> handlePacket None 1000000000 ''10.0.0.1:5000''
       (Encode (NewPacketHeader (NewChecksum [0xff, LoginPacketType])) @ [LoginPacketType])
       (NewRCON [0x78]) =
     (NewRCON [0x78], [],
      [PasswordError ''10.0.0.1:5000'' (Some (ErrorWrap EOF ''could not parse command''))])"
proof -
  have a: "Cache_Get 1000000000 ''10.0.0.1:5000'' (clients (NewRCON [0x78])) = None"
    by (simp add: Cache_Get_def NewRCON_def)
  from a empty_login_dropped [OF a, of None] show ?thesis by simp
qed

text \<open>
  The wrong-password branch of \<open>handleAuthentication\<close> does not return: whatever the
  wrong password is, the statements for a successful login run after it.
\<close>

lemma handleAuthentication_wrong_password:
  assumes "passwd \<noteq> password r"
  shows "fst (snd (handleAuthentication now addr passwd r)) =
       [(addr, MakeLoginResponsePacket LoginFailed),
        (addr, MakeLoginResponsePacket LoginSuccessful)]
    \<and> map_of (clients (fst (handleAuthentication now addr passwd r))) addr =
       Some \<lparr>Object = addr, Expiration = now + 50 * Second\<rparr>"
  using assms
  by (simp add: handleAuthentication_def Let_def SendResponse_def Cache_Set_def
      keepAliveCheck_def Second_def update_conv' split: prod.splits)

text \<open>
  Claim C1.  The claim asks that a login with a wrong password be answered by the
  failed-login response alone and leave the session table unchanged.  With the password
  "x" configured, a login datagram carrying "y" from a peer without a session is
  answered by the failed-login response followed by the successful-login response, and
  the peer gets a session entry for 50 seconds.
\<close>

theorem wrong_password_creates_session:
  "handlePacket None 1000000000 ''10.0.0.1:5000''
     (Encode (NewPacketHeader (NewChecksum [0xff, LoginPacketType, 0x79]))
        @ [LoginPacketType, 0x79])
     (NewRCON [0x78]) =
   (\<lparr>password = [0x78],
     clients = [(''10.0.0.1:5000'',
                 \<lparr>Object = ''10.0.0.1:5000'', Expiration = 51000000000\<rparr>)],
     blockedIp = [],
     wrongPasswordCounter = [(''10.0.0.1'', \<lparr>Object = 1, Expiration = 1801000000000\<rparr>)],
     ipBanList = [], seqNumber = 0, serverMessageAcknowledges = []\<rparr>,
    [(''10.0.0.1:5000'', MakeLoginResponsePacket LoginFailed),
     (''10.0.0.1:5000'', MakeLoginResponsePacket LoginSuccessful)],
    [WrongPassword ''10.0.0.1:5000'' [0x79] 1, Authenticated ''10.0.0.1:5000''])"
proof -
  have a: "Cache_Get 1000000000 ''10.0.0.1:5000'' (clients (NewRCON [0x78])) = None"
    by (simp add: Cache_Get_def NewRCON_def)
  show ?thesis
    by (simp only: handlePacket_login [OF a])
      (simp add: handleAuthentication_def Let_def SendResponse_def Cache_Set_def
        Cache_Get_def Cache_IncrementInt_def Expired_def keepAliveCheck_def
        blockIpInterval_def loginTries_def Second_def Minute_def NewRCON_def
        addressWithoutPort_example)
qed

lemmas engine_eval =
  handleAuthentication_def Let_def SendResponse_def Cache_Set_def
  Cache_Get_def Cache_IncrementInt_def Cache_Items_def Expired_def keepAliveCheck_def
  blockIpInterval_def loginTries_def Second_def Minute_def NewRCON_def
  ListenAndServe_iteration_def addressInBanList_def addressInBlockedList_def
  handlePacket_login handlePacket_login_connected

text \<open>
  Claim C4.  The claim asks that the source address be in the block table after five
  wrong-password logins.  Five such datagrams from one peer, one second apart: the first
  one counts as a failed login and, by the missing return, also opens a session; the
  four others then come from a peer with a session, are not treated as logins, and only
  refresh the session.  The counter stays at 1 and the block table stays empty.
\<close>

theorem five_wrong_passwords_one_peer_not_blocked:
  "ListenAndServe_loop None
     [(1000000000, ''10.0.0.1:5000'',
         Encode (NewPacketHeader (NewChecksum [0xff, LoginPacketType, 0x79]))
           @ [LoginPacketType, 0x79]),
      (2000000000, ''10.0.0.1:5000'',
         Encode (NewPacketHeader (NewChecksum [0xff, LoginPacketType, 0x79]))
           @ [LoginPacketType, 0x79]),
      (3000000000, ''10.0.0.1:5000'',
         Encode (NewPacketHeader (NewChecksum [0xff, LoginPacketType, 0x79]))
           @ [LoginPacketType, 0x79]),
      (4000000000, ''10.0.0.1:5000'',
         Encode (NewPacketHeader (NewChecksum [0xff, LoginPacketType, 0x79]))
           @ [LoginPacketType, 0x79]),
      (5000000000, ''10.0.0.1:5000'',
         Encode (NewPacketHeader (NewChecksum [0xff, LoginPacketType, 0x79]))
           @ [LoginPacketType, 0x79])]
     (NewRCON [0x78]) =
   (\<lparr>password = [0x78],
     clients = [(''10.0.0.1:5000'',
                 \<lparr>Object = ''10.0.0.1:5000'', Expiration = 55000000000\<rparr>)],
     blockedIp = [],
     wrongPasswordCounter = [(''10.0.0.1'', \<lparr>Object = 1, Expiration = 1801000000000\<rparr>)],
     ipBanList = [], seqNumber = 0, serverMessageAcknowledges = []\<rparr>,
    [(''10.0.0.1:5000'', MakeLoginResponsePacket LoginFailed),
     (''10.0.0.1:5000'', MakeLoginResponsePacket LoginSuccessful)],
    [WrongPassword ''10.0.0.1:5000'' [0x79] 1, Authenticated ''10.0.0.1:5000''])"
proof -
  have len: "length (Encode (NewPacketHeader (NewChecksum [0xff, LoginPacketType, 0x79]))
           @ [LoginPacketType, 0x79]) \<le> 4096"
    by (simp add: length_Encode_NewPacketHeader)
  show ?thesis
    by (simp add: take_all [OF len] addressWithoutPort_example engine_eval del: take_append)
qed

text \<open>
  The same five datagrams from five ports of the same address are all handled as logins,
  and the address is blocked after the fifth.
\<close>

lemma five_wrong_passwords_five_ports_blocked:
  "addressInBlockedList 6000000000
     (fst (ListenAndServe_loop None
       [(1000000000, ''10.0.0.1:5001'',
           Encode (NewPacketHeader (NewChecksum [0xff, LoginPacketType, 0x79]))
             @ [LoginPacketType, 0x79]),
        (2000000000, ''10.0.0.1:5002'',
           Encode (NewPacketHeader (NewChecksum [0xff, LoginPacketType, 0x79]))
             @ [LoginPacketType, 0x79]),
        (3000000000, ''10.0.0.1:5003'',
           Encode (NewPacketHeader (NewChecksum [0xff, LoginPacketType, 0x79]))
             @ [LoginPacketType, 0x79]),
        (4000000000, ''10.0.0.1:5004'',
           Encode (NewPacketHeader (NewChecksum [0xff, LoginPacketType, 0x79]))
             @ [LoginPacketType, 0x79]),
        (5000000000, ''10.0.0.1:5005'',
           Encode (NewPacketHeader (NewChecksum [0xff, LoginPacketType, 0x79]))
             @ [LoginPacketType, 0x79])]
       (NewRCON [0x78])))
     ''10.0.0.1''"
proof -
  have len: "length (Encode (NewPacketHeader (NewChecksum [0xff, LoginPacketType, 0x79]))
           @ [LoginPacketType, 0x79]) \<le> 4096"
    by (simp add: length_Encode_NewPacketHeader)
  show ?thesis
    by (simp add: take_all [OF len] addressWithoutPort_def engine_eval del: take_append)
qed

lemma addressWithoutPort_ipv6: "addressWithoutPort ''[::1]:5000'' = ''[''"
  by (simp add: addressWithoutPort_def)

text \<open>
  Claim C7.  The claim asks that a datagram whose source IP is in the static ban list
  get no response and change no state.  An IPv6 peer has an address string such as
  \<open>[::1]:5000\<close>: the text before its first colon is \<open>[\<close>, which is what
  \<open>addressWithoutPort\<close> returns and what is looked up in the ban list.  With the IP
  \<open>::1\<close> banned, a login datagram with the right password from \<open>[::1]:5000\<close> is
  dispatched, answered with the successful-login response, and given a session.
\<close>

theorem banned_ipv6_source_answered:
  "addressWithoutPort ''[::1]:5000'' = ''[''
   \<and> ListenAndServe_iteration None 1000000000 ''[::1]:5000''
       (Encode (NewPacketHeader (NewChecksum [0xff, LoginPacketType, 0x78]))
          @ [LoginPacketType, 0x78])
       (SetIPBanList [''::1''] (NewRCON [0x78])) =
     (\<lparr>password = [0x78],
       clients = [(''[::1]:5000'', \<lparr>Object = ''[::1]:5000'', Expiration = 51000000000\<rparr>)],
       blockedIp = [], wrongPasswordCounter = [],
       ipBanList = [''::1''], seqNumber = 0, serverMessageAcknowledges = []\<rparr>,
      [(''[::1]:5000'', MakeLoginResponsePacket LoginSuccessful)],
      [Authenticated ''[::1]:5000''])"
proof -
  have len: "length (Encode (NewPacketHeader (NewChecksum [0xff, LoginPacketType, 0x78]))
           @ [LoginPacketType, 0x78]) \<le> 4096"
    by (simp add: length_Encode_NewPacketHeader)
  show ?thesis
    by (simp add: take_all [OF len] addressWithoutPort_ipv6 SetIPBanList_def engine_eval
        del: take_append)
qed

end
